theory Spec2Isabelle
  imports Main
begin

section \<open>ephemeris/sleep.py: blocking wait until a Galaxy instance answers\<close>

text \<open>
  The module polls \<^verbatim>\<open>galaxy_url + "/api/version"\<close> once per loop iteration until the
  answer parses as JSON, the iteration budget \<^verbatim>\<open>timeout\<close> is exceeded, or the shared
  \<^verbatim>\<open>SleepCondition\<close> is cancelled. The embedding keeps the control flow of
  \<^verbatim>\<open>galaxy_wait\<close> and \<^verbatim>\<open>main\<close> statement by statement; what the outside world
  does (the answer to each \<^verbatim>\<open>requests.get\<close>, the value of the shared flag at each test
  of the loop condition) is a parameter.

  Text is held as its UTF-8 bytes. Standard output and standard error are open text
  streams that encode with UTF-8: a write fails only on text that UTF-8 cannot encode,
  which is text with a lone surrogate. The texts that the code writes are built from the
  counter, from \<^verbatim>\<open>str\<close> of a response (\<^verbatim>\<open><Response [403]>\<close>), from \<^verbatim>\<open>str\<close> of a
  parsed body that is a dict (which escapes what it cannot print), from the message of
  the client's exception, and from the value of \<^verbatim>\<open>version_major\<close>; only the last is
  raw text of the server, and only that write is given a way to fail.
\<close>

subsection \<open>Values that come back from the HTTP client\<close>

text \<open>
  The Python object that \<^verbatim>\<open>result.json()\<close> returns. Numbers are kept by their literal:
  the code never computes with them. \<open>JString\<close> is a \<^verbatim>\<open>str\<close> that UTF-8 can encode;
  \<open>JSurrogateString\<close> is a \<^verbatim>\<open>str\<close> with a lone surrogate, which the parser accepts
  (a body that is the escape of U+D800 between quotes) and UTF-8 cannot encode, kept by
  its literal.
\<close>

datatype json =
    JNull
  | JBool bool
  | JNumber string
  | JString string
  | JSurrogateString string
  | JArray "json list"
  | JObject "(string \<times> json) list"

text \<open>
  What \<^verbatim>\<open>result.json()\<close> does on a response: it returns the parsed value, it raises
  \<^verbatim>\<open>ValueError\<close> (the body is not JSON), or it raises an exception that is not a
  \<^verbatim>\<open>ValueError\<close> (\<^verbatim>\<open>RecursionError\<close> on a body nested too deep).
\<close>

datatype body =
    Parsed json
  | NotJson
  | ParserException string

text \<open>
  A \<^verbatim>\<open>requests.Response\<close> as far as the code reads it: \<^verbatim>\<open>status_code\<close>, and what
  \<^verbatim>\<open>.json()\<close> does.
\<close>

record response =
  status_code :: int
  json_body :: body

text \<open>
  What one call \<^verbatim>\<open>requests.get(version_url)\<close> does: it raises
  \<^verbatim>\<open>requests.exceptions.ConnectionError\<close> (with its message), it raises another exception
  of the client that is not a \<^verbatim>\<open>ConnectionError\<close> (\<^verbatim>\<open>TooManyRedirects\<close>,
  \<^verbatim>\<open>ChunkedEncodingError\<close>, \<^verbatim>\<open>MissingSchema\<close>, ...), or it returns a response.
\<close>

datatype outcome =
    ConnectionError string
  | OtherRequestException string
  | Response response

text \<open>The exceptions that can leave \<^verbatim>\<open>galaxy_wait\<close>.\<close>

datatype error =
    KeyError string
  | TypeError
  | RequestException string
  | JsonException string

text \<open>
  \<^verbatim>\<open>result['version_major']\<close> on the parsed value: a dict looks the key up and raises
  \<^verbatim>\<open>KeyError\<close> when it is missing; every other JSON value (list, str, number, bool,
  None) raises \<^verbatim>\<open>TypeError\<close> on a string subscript.
\<close>

fun subscript :: "json \<Rightarrow> string \<Rightarrow> error + json" where
  "subscript (JObject kvs) k =
     (case map_of kvs k of None \<Rightarrow> Inl (KeyError k) | Some v \<Rightarrow> Inr v)"
| "subscript _ k = Inl TypeError"

subsection \<open>Output\<close>

text \<open>
  The value of the variable \<^verbatim>\<open>result\<close> when line 80 formats it: the response, when
  \<^verbatim>\<open>result.json()\<close> raised, or the parsed body, when line 73 had assigned it before the
  \<^verbatim>\<open>ValueError\<close> came.
\<close>

datatype result_value =
    Unparsed response
  | AfterParse json

text \<open>
  One value per \<^verbatim>\<open>sys.stdout.write\<close> of the source, holding the arguments of its format
  string: \<open>KeyNotValid count result\<close> is line 69, \<open>GalaxyVersion v\<close> line 75,
  \<open>NoValidJson count result\<close> line 80 and \<open>NotUpYet count msg\<close> line 84, where
  \<open>msg\<close> is \<^verbatim>\<open>unicodify(e)[:100]\<close>.
\<close>

datatype log =
    KeyNotValid nat response
  | GalaxyVersion json
  | NoValidJson nat result_value
  | NotUpYet nat string

text \<open>
  The write of line 75 formats the value with \<^verbatim>\<open>%s\<close>: a \<^verbatim>\<open>str\<close> goes out as it is,
  every other value as its \<^verbatim>\<open>repr\<close>, which escapes a surrogate. So the stream can
  encode the text unless the value is a \<^verbatim>\<open>str\<close> with a lone surrogate; then the write
  raises \<^verbatim>\<open>UnicodeEncodeError\<close>, a \<^verbatim>\<open>ValueError\<close>, and nothing is written.
\<close>

fun encodable :: "json \<Rightarrow> bool" where
  "encodable (JSurrogateString s) = False"
| "encodable _ = True"

definition failed_to_contact :: string where
  "failed_to_contact = ''Failed to contact Galaxy'' @ [CHR 0x0A]"

subsection \<open>The state of one call\<close>

text \<open>
  \<open>count\<close> is the local variable of the source. The other fields record the effects:
  the URLs requested, in order; the writes to standard output and standard error; the
  number of calls of \<^verbatim>\<open>time.sleep(DEFAULT_SLEEP_WAIT)\<close>.
\<close>

record wait_state =
  count :: nat
  requested :: "string list"
  out :: "log list"
  err :: "string list"
  sleeps :: nat

definition init_state :: wait_state where
  "init_state = \<lparr>count = 0, requested = [], out = [], err = [], sleeps = 0\<rparr>"

subsection \<open>\<^verbatim>\<open>SleepCondition\<close>\<close>

text \<open>
  The object is shared with the caller, who may call \<^verbatim>\<open>cancel()\<close> at any moment. The
  model of a caller's object is the value of its field \<^verbatim>\<open>sleep\<close> at each evaluation of
  the loop condition, numbered from 0. \<open>fresh\<close> is the object that
  \<^verbatim>\<open>SleepCondition()\<close> builds at line 61: nobody else holds it, so it stays \<open>True\<close>.
  \<open>cancel_at n\<close> is an object whose owner calls \<^verbatim>\<open>cancel()\<close> just before test \<open>n\<close>.
\<close>

type_synonym sleep_condition = "nat \<Rightarrow> bool"

definition fresh :: sleep_condition where
  "fresh = (\<lambda>_. True)"

definition cancel_at :: "nat \<Rightarrow> sleep_condition" where
  "cancel_at n = (\<lambda>k. k < n)"

subsection \<open>\<^verbatim>\<open>galaxy_wait\<close>\<close>

text \<open>Lines 55 to 59. \<^verbatim>\<open>if api_key:\<close> is false for \<^verbatim>\<open>None\<close> and for the empty string.\<close>

definition version_url :: "string \<Rightarrow> string option \<Rightarrow> string" where
  "version_url galaxy_url api_key =
     (let url = galaxy_url @ ''/api/version'' in
      case api_key of
        None \<Rightarrow> url
      | Some key \<Rightarrow> if key = [] then url else url @ ''?'' @ key)"

text \<open>
  How the \<^verbatim>\<open>try\<close> statement of lines 65 to 85 ends: with \<^verbatim>\<open>break\<close>, by falling
  through to \<^verbatim>\<open>count += 1\<close>, or with an exception that no handler catches.
\<close>

datatype step = Break | Next | Raise error

text \<open>
  Lines 65 to 85 for one answer of \<^verbatim>\<open>requests.get\<close>: the writes to standard output and
  how the statement ends. Only \<^verbatim>\<open>ConnectionError\<close> is caught by the outer handler and
  only \<^verbatim>\<open>ValueError\<close> by the inner one. The inner \<^verbatim>\<open>try\<close> holds line 73 and the
  verbose write of lines 75 and 76: an exception of \<^verbatim>\<open>result.json()\<close> that is not a
  \<^verbatim>\<open>ValueError\<close> leaves the call, and so does the \<^verbatim>\<open>KeyError\<close> or \<^verbatim>\<open>TypeError\<close>
  of the subscript, while the \<^verbatim>\<open>ValueError\<close> of a write that cannot be encoded is caught
  by line 78 like the one of a body that is not JSON, with \<^verbatim>\<open>result\<close> already the parsed
  body.
\<close>

fun attempt :: "bool \<Rightarrow> nat \<Rightarrow> outcome \<Rightarrow> log list \<times> step" where
  "attempt verbose c (Response result) =
     (if status_code result = 403 then
        ((if verbose then [KeyNotValid c result] else []), Next)
      else
        (case json_body result of
           Parsed j \<Rightarrow>
             (if verbose then
                (case subscript j ''version_major'' of
                   Inr v \<Rightarrow>
                     (if encodable v then ([GalaxyVersion v], Break)
                      else ([NoValidJson c (AfterParse j)], Next))
                 | Inl e \<Rightarrow> ([], Raise e))
              else ([], Break))
         | NotJson \<Rightarrow> ((if verbose then [NoValidJson c (Unparsed result)] else []), Next)
         | ParserException e \<Rightarrow> ([], Raise (JsonException e))))"
| "attempt verbose c (ConnectionError e) =
     ((if verbose then [NotUpYet c (take 100 e)] else []), Next)"
| "attempt verbose c (OtherRequestException e) = ([], Raise (RequestException e))"

text \<open>
  The \<^verbatim>\<open>while\<close> loop of lines 64 to 95. \<open>get url k\<close> is what the \<open>k\<close>-th call of
  \<^verbatim>\<open>requests.get(url)\<close> does and \<open>cond k\<close> the value of \<^verbatim>\<open>sleep_condition.sleep\<close> at
  the \<open>k\<close>-th test, both numbered from 0; every iteration that goes on adds one to
  \<open>count\<close>, so both are read at \<open>count\<close>. The result is \<open>None\<close> when the loop never
  ends, and otherwise the final state with \<open>Inr\<close> the returned boolean or \<open>Inl\<close> the
  exception raised.
\<close>

partial_function (option) wait_loop ::
  "(string \<Rightarrow> nat \<Rightarrow> outcome) \<Rightarrow> sleep_condition \<Rightarrow> string \<Rightarrow> bool \<Rightarrow> int \<Rightarrow> wait_state
     \<Rightarrow> ((error + bool) \<times> wait_state) option" where
  "wait_loop get cond url verbose timeout st =
     (if \<not> cond (count st) then Some (Inr True, st)
      else
        let tried = attempt verbose (count st) (get url (count st));
            st1 = st\<lparr>requested := requested st @ [url], out := out st @ fst tried\<rparr>
        in
          case snd tried of
            Break \<Rightarrow> Some (Inr True, st1)
          | Raise e \<Rightarrow> Some (Inl e, st1)
          | Next \<Rightarrow>
              let st2 = st1\<lparr>count := count st1 + 1\<rparr> in
                if timeout \<noteq> 0 \<and> int (count st2) > timeout then
                  Some (Inr False, st2\<lparr>err := err st2 @ [failed_to_contact]\<rparr>)
                else
                  wait_loop get cond url verbose timeout (st2\<lparr>sleeps := sleeps st2 + 1\<rparr>))"

declare wait_loop.simps [code]

text \<open>Lines 60 and 61. \<open>sleep_condition = None\<close> is the default argument.\<close>

definition condition_of :: "sleep_condition option \<Rightarrow> sleep_condition" where
  "condition_of sleep_condition = (case sleep_condition of None \<Rightarrow> fresh | Some c \<Rightarrow> c)"

text \<open>Lines 53 to 95.\<close>

definition galaxy_wait ::
  "(string \<Rightarrow> nat \<Rightarrow> outcome) \<Rightarrow> string \<Rightarrow> bool \<Rightarrow> int \<Rightarrow> sleep_condition option
     \<Rightarrow> string option \<Rightarrow> ((error + bool) \<times> wait_state) option" where
  "galaxy_wait get galaxy_url verbose timeout sleep_condition api_key =
     wait_loop get (condition_of sleep_condition) (version_url galaxy_url api_key)
       verbose timeout init_state"

subsection \<open>\<^verbatim>\<open>main\<close>\<close>

text \<open>
  The namespace that \<^verbatim>\<open>_parse_cli_options()\<close> returns, as far as \<^verbatim>\<open>main\<close> reads it:
  \<^verbatim>\<open>options.galaxy\<close>, \<^verbatim>\<open>options.verbose\<close>, \<^verbatim>\<open>options.timeout\<close> and
  \<^verbatim>\<open>options.api_key\<close> (the last three fields carry the suffix \<open>_opt\<close>, to keep the
  names \<open>verbose\<close>, \<open>timeout\<close> and \<open>api_key\<close> for the parameters of
  \<^verbatim>\<open>galaxy_wait\<close>).
\<close>

record options =
  galaxy :: string
  verbose_opt :: bool
  timeout_opt :: int
  api_key_opt :: "string option"

text \<open>
  Lines 98 to 111: the argument of \<^verbatim>\<open>sys.exit\<close>, or the exception that left
  \<^verbatim>\<open>galaxy_wait\<close>; \<open>None\<close> when \<^verbatim>\<open>galaxy_wait\<close> never ends.
\<close>

definition main :: "(string \<Rightarrow> nat \<Rightarrow> outcome) \<Rightarrow> options \<Rightarrow> (error + int) option" where
  "main get opts =
     (case galaxy_wait get (galaxy opts) (verbose_opt opts) (timeout_opt opts) None
             (api_key_opt opts) of
        None \<Rightarrow> None
      | Some (Inl e, _) \<Rightarrow> Some (Inl e)
      | Some (Inr galaxy_alive, _) \<Rightarrow> Some (Inr (if galaxy_alive then 0 else 1)))"

subsection \<open>Vocabulary of the properties\<close>

text \<open>
  An answer that is not a successful one and after which the iteration goes on to
  \<^verbatim>\<open>count += 1\<close>: a connection failure, a 403, or a body that is not JSON.
\<close>

fun retryable :: "outcome \<Rightarrow> bool" where
  "retryable (ConnectionError e) = True"
| "retryable (OtherRequestException e) = False"
| "retryable (Response r) = (status_code r = 403 \<or> json_body r = NotJson)"

text \<open>A successful answer: a response that is not a 403 and whose body parses as JSON.\<close>

fun successful :: "outcome \<Rightarrow> bool" where
  "successful (Response r) =
     (status_code r \<noteq> 403 \<and> (case json_body r of Parsed j \<Rightarrow> True | _ \<Rightarrow> False))"
| "successful _ = False"

text \<open>The parsed body is a dict that has the key \<^verbatim>\<open>version_major\<close>.\<close>

definition has_version_major :: "json \<Rightarrow> bool" where
  "has_version_major j = (case subscript j ''version_major'' of Inr v \<Rightarrow> True | Inl e \<Rightarrow> False)"

text \<open>
  The subscript of line 75 does not raise on this answer: a parsed body of a response
  other than a 403 is a dict with the key \<^verbatim>\<open>version_major\<close>.
\<close>

fun loggable :: "outcome \<Rightarrow> bool" where
  "loggable (Response r) =
     (case json_body r of
        Parsed j \<Rightarrow> status_code r = 403 \<or> has_version_major j
      | _ \<Rightarrow> True)"
| "loggable _ = True"

text \<open>
  The write of line 75 goes through on this answer: the body is a dict with the key
  \<^verbatim>\<open>version_major\<close> and the stream can encode the value.
\<close>

fun version_written :: "outcome \<Rightarrow> bool" where
  "version_written (Response r) =
     (case json_body r of
        Parsed j \<Rightarrow>
          (case subscript j ''version_major'' of Inr v \<Rightarrow> encodable v | Inl e \<Rightarrow> False)
      | _ \<Rightarrow> False)"
| "version_written _ = False"

text \<open>
  A connection failure or a 403 (whatever its body), and two answers that are the same or
  both of that kind.
\<close>

fun refused_or_403 :: "outcome \<Rightarrow> bool" where
  "refused_or_403 (ConnectionError e) = True"
| "refused_or_403 (Response r) = (status_code r = 403)"
| "refused_or_403 (OtherRequestException e) = False"

definition retry_alike :: "outcome \<Rightarrow> outcome \<Rightarrow> bool" where
  "retry_alike a b = (a = b \<or> (refused_or_403 a \<and> refused_or_403 b))"

text \<open>
  An answer on which \<^verbatim>\<open>requests.get\<close> and \<^verbatim>\<open>result.json()\<close> raise nothing but
  what the handlers catch: \<^verbatim>\<open>requests.get\<close> raises \<^verbatim>\<open>ConnectionError\<close> or returns a
  response, and \<^verbatim>\<open>result.json()\<close>, which runs on a response other than a 403, returns
  or raises \<^verbatim>\<open>ValueError\<close>.
\<close>

fun handled :: "outcome \<Rightarrow> bool" where
  "handled (ConnectionError e) = True"
| "handled (Response r) =
     (status_code r = 403 \<or> (case json_body r of ParserException e \<Rightarrow> False | _ \<Rightarrow> True))"
| "handled (OtherRequestException e) = False"

fun connection_failure :: "outcome \<Rightarrow> bool" where
  "connection_failure (ConnectionError e) = True"
| "connection_failure _ = False"

text \<open>
  What a caller can tell of a finished call apart from standard output: the result, the
  counter, the requests made, the sleeps and standard error.
\<close>

definition observe ::
  "(error + bool) \<times> wait_state \<Rightarrow> (error + bool) \<times> nat \<times> string list \<times> nat \<times> string list" where
  "observe y = (fst y, count (snd y), requested (snd y), sleeps (snd y), err (snd y))"

text \<open>Two states with the same effects apart from standard output.\<close>

definition same_effects :: "wait_state \<Rightarrow> wait_state \<Rightarrow> bool" where
  "same_effects s t \<longleftrightarrow>
     count s = count t \<and> requested s = requested t \<and> sleeps s = sleeps t \<and> err s = err t"

text \<open>
  The state after the request of one iteration (lines 65 to 85), after an iteration that
  was retried and slept (lines 65 to 93), and at the \<^verbatim>\<open>return False\<close> of line 91.
\<close>

definition request_step ::
  "(string \<Rightarrow> nat \<Rightarrow> outcome) \<Rightarrow> string \<Rightarrow> bool \<Rightarrow> wait_state \<Rightarrow> wait_state" where
  "request_step get url verbose st =
     st\<lparr>requested := requested st @ [url],
        out := out st @ fst (attempt verbose (count st) (get url (count st)))\<rparr>"

definition retry_step ::
  "(string \<Rightarrow> nat \<Rightarrow> outcome) \<Rightarrow> string \<Rightarrow> bool \<Rightarrow> wait_state \<Rightarrow> wait_state" where
  "retry_step get url verbose st =
     (request_step get url verbose st)\<lparr>count := count st + 1, sleeps := sleeps st + 1\<rparr>"

definition timeout_step ::
  "(string \<Rightarrow> nat \<Rightarrow> outcome) \<Rightarrow> string \<Rightarrow> bool \<Rightarrow> wait_state \<Rightarrow> wait_state" where
  "timeout_step get url verbose st =
     (request_step get url verbose st)\<lparr>count := count st + 1,
        err := err st @ [failed_to_contact]\<rparr>"

subsection \<open>Concrete targets\<close>

text \<open>
  The answer of a Galaxy that is up, the answer of a Galaxy that does not know the key yet
  (a 403 whose body is JSON), and a JSON answer of a server that is not Galaxy's version
  endpoint.
\<close>

definition galaxy_up :: response where
  "galaxy_up =
     \<lparr>status_code = 200,
      json_body = Parsed (JObject [(''version_major'', JString ''23.0'')])\<rparr>"

definition key_not_valid :: response where
  "key_not_valid =
     \<lparr>status_code = 403,
      json_body =
        Parsed (JObject [(''err_msg'', JString ''Provided API key is not valid.'')])\<rparr>"

definition other_json :: response where
  "other_json =
     \<lparr>status_code = 200, json_body = Parsed (JObject [(''status'', JString ''ok'')])\<rparr>"

text \<open>
  Targets: the first \<open>n\<close> requests are refused, or answered with the 403, and the later
  ones answered by the Galaxy that is up; every request answered with the 403; every
  request answered with the other JSON; every request ending in
  \<^verbatim>\<open>requests.exceptions.ChunkedEncodingError\<close>, which is not a
  \<^verbatim>\<open>ConnectionError\<close>; the first \<open>n\<close> requests refused and the later ones ending in that
  exception.
\<close>

definition refused_then_up :: "nat \<Rightarrow> string \<Rightarrow> nat \<Rightarrow> outcome" where
  "refused_then_up n url k =
     (if k < n then ConnectionError ''Connection refused'' else Response galaxy_up)"

definition forbidden_then_up :: "nat \<Rightarrow> string \<Rightarrow> nat \<Rightarrow> outcome" where
  "forbidden_then_up n url k = (if k < n then Response key_not_valid else Response galaxy_up)"

definition always_forbidden :: "string \<Rightarrow> nat \<Rightarrow> outcome" where
  "always_forbidden url k = Response key_not_valid"

definition always_other_json :: "string \<Rightarrow> nat \<Rightarrow> outcome" where
  "always_other_json url k = Response other_json"

definition broken_transfer :: "string \<Rightarrow> nat \<Rightarrow> outcome" where
  "broken_transfer url k = OtherRequestException ''ChunkedEncodingError''"

definition refused_then_broken :: "nat \<Rightarrow> string \<Rightarrow> nat \<Rightarrow> outcome" where
  "refused_then_broken n url k =
     (if k < n then ConnectionError ''Connection refused''
      else OtherRequestException ''ChunkedEncodingError'')"

text \<open>
  A body nested too deep for the parser, and a Galaxy whose \<^verbatim>\<open>version_major\<close> is a
  string with a lone surrogate.
\<close>

definition too_deep :: response where
  "too_deep = \<lparr>status_code = 200, json_body = ParserException ''RecursionError''\<rparr>"

definition surrogate_version :: response where
  "surrogate_version =
     \<lparr>status_code = 200,
      json_body = Parsed (JObject [(''version_major'', JSurrogateString ''d800'')])\<rparr>"

definition always_too_deep :: "string \<Rightarrow> nat \<Rightarrow> outcome" where
  "always_too_deep url k = Response too_deep"

definition always_surrogate_version :: "string \<Rightarrow> nat \<Rightarrow> outcome" where
  "always_surrogate_version url k = Response surrogate_version"

definition localhost :: string where
  "localhost = ''http://localhost:8080''"

section \<open>One iteration\<close>

lemma attempt_retryable: "retryable a \<Longrightarrow> snd (attempt verbose c a) = Next"
  by (cases a) (auto split: body.splits)

lemma attempt_refused_or_403: "refused_or_403 a \<Longrightarrow> snd (attempt verbose c a) = Next"
  by (cases a) simp_all

lemma attempt_snd_count: "snd (attempt verbose c a) = snd (attempt verbose c' a)"
  by (cases a) (auto split: body.splits sum.splits)

lemma attempt_Break_iff:
  "snd (attempt verbose c a) = Break \<longleftrightarrow> successful a \<and> (verbose \<longrightarrow> version_written a)"
  by (cases a) (auto split: body.splits sum.splits)

lemma attempt_successful:
  "successful a \<Longrightarrow> verbose \<longrightarrow> version_written a \<Longrightarrow> snd (attempt verbose c a) = Break"
  by (simp add: attempt_Break_iff)

lemma attempt_Raise_iff:
  "(\<exists>e. snd (attempt verbose c a) = Raise e) \<longleftrightarrow> \<not> handled a \<or> (verbose \<and> \<not> loggable a)"
  by (cases a) (auto simp: has_version_major_def split: body.splits sum.splits)

lemma connection_failure_retryable: "connection_failure a \<Longrightarrow> retryable a"
  by (cases a) simp_all

lemma attempt_quiet: "fst (attempt False c a) = []"
  by (cases a) (auto split: body.splits)

section \<open>Unfolding the loop\<close>

lemma wait_loop_cancelled:
  "\<not> cond (count st) \<Longrightarrow> wait_loop get cond url verbose timeout st = Some (Inr True, st)"
  by (subst wait_loop.simps) simp

lemma wait_loop_break:
  assumes "cond (count st)" and "snd (attempt verbose (count st) (get url (count st))) = Break"
  shows "wait_loop get cond url verbose timeout st =
         Some (Inr True, request_step get url verbose st)"
  using assms by (subst wait_loop.simps) (simp add: Let_def request_step_def)

lemma wait_loop_raise:
  assumes "cond (count st)" and "snd (attempt verbose (count st) (get url (count st))) = Raise e"
  shows "wait_loop get cond url verbose timeout st =
         Some (Inl e, request_step get url verbose st)"
  using assms by (subst wait_loop.simps) (simp add: Let_def request_step_def)

lemma wait_loop_next:
  assumes "cond (count st)" and "snd (attempt verbose (count st) (get url (count st))) = Next"
    and "timeout = 0 \<or> int (count st) + 1 \<le> timeout"
  shows "wait_loop get cond url verbose timeout st =
         wait_loop get cond url verbose timeout (retry_step get url verbose st)"
  using assms
  by (subst wait_loop.simps) (auto simp: Let_def retry_step_def request_step_def)

lemma wait_loop_over:
  assumes "cond (count st)" and "snd (attempt verbose (count st) (get url (count st))) = Next"
    and "timeout \<noteq> 0" and "timeout < int (count st) + 1"
  shows "wait_loop get cond url verbose timeout st =
         Some (Inr False, timeout_step get url verbose st)"
  using assms
  by (subst wait_loop.simps) (auto simp: Let_def timeout_step_def request_step_def)

lemma wait_loop_retry:
  assumes "cond (count st)" and "retryable (get url (count st))"
    and "timeout = 0 \<or> int (count st) + 1 \<le> timeout"
  shows "wait_loop get cond url verbose timeout st =
         wait_loop get cond url verbose timeout (retry_step get url verbose st)"
  using assms by (intro wait_loop_next) (simp_all add: attempt_retryable)

lemma wait_loop_timeout:
  assumes "cond (count st)" and "retryable (get url (count st))"
    and "timeout \<noteq> 0" and "timeout < int (count st) + 1"
  shows "wait_loop get cond url verbose timeout st =
         Some (Inr False, timeout_step get url verbose st)"
  using assms by (intro wait_loop_over) (simp_all add: attempt_retryable)

lemma wait_loop_success:
  assumes "cond (count st)" and "successful (get url (count st))"
    and "verbose \<longrightarrow> version_written (get url (count st))"
  shows "wait_loop get cond url verbose timeout st =
         Some (Inr True, request_step get url verbose st)"
  using assms by (intro wait_loop_break) (simp_all add: attempt_successful)

section \<open>A run of retried iterations\<close>

lemma count_retry_steps: "count ((retry_step get url verbose ^^ n) st) = count st + n"
  by (induction n) (simp_all add: retry_step_def request_step_def)

lemma requested_retry_steps:
  "requested ((retry_step get url verbose ^^ n) st) = requested st @ replicate n url"
  by (induction n) (simp_all add: retry_step_def request_step_def replicate_append_same)

lemma sleeps_retry_steps: "sleeps ((retry_step get url verbose ^^ n) st) = sleeps st + n"
  by (induction n) (simp_all add: retry_step_def request_step_def)

lemma err_retry_steps: "err ((retry_step get url verbose ^^ n) st) = err st"
  by (induction n) (simp_all add: retry_step_def request_step_def)

lemma out_retry_steps_quiet: "out ((retry_step get url False ^^ n) st) = out st"
  by (induction n) (simp_all add: retry_step_def request_step_def attempt_quiet)

lemma wait_loop_retries:
  assumes "\<forall>k<n. cond (count st + k) \<and> retryable (get url (count st + k))"
    and "timeout = 0 \<or> int (count st + n) \<le> timeout"
  shows "wait_loop get cond url verbose timeout st =
         wait_loop get cond url verbose timeout ((retry_step get url verbose ^^ n) st)"
  using assms
proof (induction n)
  case 0
  show ?case by simp
next
  case (Suc n)
  have "wait_loop get cond url verbose timeout st =
        wait_loop get cond url verbose timeout ((retry_step get url verbose ^^ n) st)"
    using Suc by auto
  also have "\<dots> = wait_loop get cond url verbose timeout
        (retry_step get url verbose ((retry_step get url verbose ^^ n) st))"
    using Suc.prems by (intro wait_loop_retry) (auto simp: count_retry_steps)
  finally show ?case by simp
qed

section \<open>Induction over a call that ends\<close>

text \<open>
  The fixpoint induction of the loop, with the five ways an iteration can go as cases.
\<close>

lemma wait_loop_induct [consumes 1, case_names cancelled break raise timeout retry]:
  assumes run: "wait_loop get cond url verbose timeout st = Some y"
    and cancelled: "\<And>st. \<not> cond (count st) \<Longrightarrow> P st (Inr True, st)"
    and break: "\<And>st. cond (count st) \<Longrightarrow>
        snd (attempt verbose (count st) (get url (count st))) = Break \<Longrightarrow>
        P st (Inr True, request_step get url verbose st)"
    and raise: "\<And>st e. cond (count st) \<Longrightarrow>
        snd (attempt verbose (count st) (get url (count st))) = Raise e \<Longrightarrow>
        P st (Inl e, request_step get url verbose st)"
    and timeout: "\<And>st. cond (count st) \<Longrightarrow>
        snd (attempt verbose (count st) (get url (count st))) = Next \<Longrightarrow>
        timeout \<noteq> 0 \<Longrightarrow> timeout < int (count st) + 1 \<Longrightarrow>
        P st (Inr False, timeout_step get url verbose st)"
    and retry: "\<And>st y. cond (count st) \<Longrightarrow>
        snd (attempt verbose (count st) (get url (count st))) = Next \<Longrightarrow>
        timeout = 0 \<or> int (count st) + 1 \<le> timeout \<Longrightarrow>
        P (retry_step get url verbose st) y \<Longrightarrow> P st y"
  shows "P st y"
proof -
  have "g = get \<and> c = cond \<and> u = url \<and> v = verbose \<and> t = timeout \<longrightarrow> P s y"
    if "wait_loop g c u v t s = Some y" for g c u v t s
    using that
  proof (induction g c u v t s y rule: wait_loop.raw_induct [rotated 1, consumes 1])
    case (1 loop g c u v t s y)
    show ?case
    proof
      assume eqs: "g = get \<and> c = cond \<and> u = url \<and> v = verbose \<and> t = timeout"
      show "P s y"
      proof (cases "cond (count s)")
        case False
        with 1(2) eqs have "y = (Inr True, s)" by simp
        with False cancelled show ?thesis by simp
      next
        case True
        show ?thesis
        proof (cases "snd (attempt verbose (count s) (get url (count s)))")
          case Break
          with True 1(2) eqs have "y = (Inr True, request_step get url verbose s)"
            by (simp add: Let_def request_step_def)
          with True Break break show ?thesis by simp
        next
          case (Raise e)
          with True 1(2) eqs have "y = (Inl e, request_step get url verbose s)"
            by (simp add: Let_def request_step_def)
          with True Raise raise show ?thesis by simp
        next
          case Next
          show ?thesis
          proof (cases "timeout \<noteq> 0 \<and> timeout < int (count s) + 1")
            case over: True
            with True Next 1(2) eqs have "y = (Inr False, timeout_step get url verbose s)"
              by (auto simp: Let_def timeout_step_def request_step_def split: if_splits)
            with True Next over timeout show ?thesis by simp
          next
            case under: False
            with True Next 1(2) eqs
            have "loop get cond url verbose timeout (retry_step get url verbose s) = Some y"
              by (auto simp: Let_def retry_step_def request_step_def split: if_splits)
            with 1(1) have ih: "P (retry_step get url verbose s) y" by blast
            from under have "timeout = 0 \<or> int (count s) + 1 \<le> timeout" by arith
            with True Next show ?thesis using ih by (rule retry)
          qed
        qed
      qed
    qed
  qed
  with run show ?thesis by blast
qed

section \<open>Invariants of a call that ends\<close>

lemma wait_loop_no_timeout:
  assumes "wait_loop get cond url verbose 0 st = Some y"
  shows "fst y \<noteq> Inr False \<and> err (snd y) = err st \<and>
     (fst y = Inr True \<longrightarrow>
        \<not> cond (count (snd y)) \<or> successful (get url (count (snd y)))) \<and>
     (\<forall>e. fst y = Inl e \<longrightarrow>
        cond (count (snd y)) \<and>
        snd (attempt verbose (count (snd y)) (get url (count (snd y)))) = Raise e)"
  using assms
proof (induction rule: wait_loop_induct)
  case (cancelled st)
  then show ?case by simp
next
  case (break st)
  then show ?case by (simp add: request_step_def attempt_Break_iff)
next
  case (raise st e)
  then show ?case by (simp add: request_step_def)
next
  case (timeout st)
  then show ?case by simp
next
  case (retry st y)
  then show ?case by (simp add: retry_step_def request_step_def)
qed

lemma wait_loop_quiet:
  assumes "wait_loop get cond url False timeout st = Some y"
  shows "out (snd y) = out st"
  using assms
  by (induction rule: wait_loop_induct)
     (simp_all add: retry_step_def request_step_def timeout_step_def attempt_quiet)

lemma wait_loop_requested:
  assumes "wait_loop get cond url verbose timeout st = Some y"
  shows "\<exists>n. requested (snd y) = requested st @ replicate n url"
  using assms
proof (induction rule: wait_loop_induct)
  case (cancelled st)
  then show ?case by simp
next
  case (break st)
  have "requested (request_step get url verbose st) = requested st @ replicate 1 url"
    by (simp add: request_step_def)
  then show ?case unfolding snd_conv by blast
next
  case (raise st e)
  have "requested (request_step get url verbose st) = requested st @ replicate 1 url"
    by (simp add: request_step_def)
  then show ?case unfolding snd_conv by blast
next
  case (timeout st)
  have "requested (timeout_step get url verbose st) = requested st @ replicate 1 url"
    by (simp add: timeout_step_def request_step_def)
  then show ?case unfolding snd_conv by blast
next
  case (retry st y)
  then obtain n where "requested (snd y) = requested st @ replicate (Suc n) url"
    by (auto simp: retry_step_def request_step_def)
  then show ?case by blast
qed

lemma galaxy_wait_requested:
  assumes "galaxy_wait get galaxy_url verbose timeout sleep_condition api_key = Some (r, st)"
  shows "\<exists>n. requested st = replicate n (version_url galaxy_url api_key)"
  using wait_loop_requested [OF assms [unfolded galaxy_wait_def]]
  by (simp add: init_state_def)

lemma wait_loop_no_exception:
  assumes "wait_loop get cond url verbose timeout st = Some y"
    and "\<forall>k. handled (get url k)" and "verbose \<longrightarrow> (\<forall>k. loggable (get url k))"
  shows "\<exists>b. fst y = Inr b"
  using assms
proof (induction rule: wait_loop_induct)
  case (raise st e)
  then have "\<not> handled (get url (count st)) \<or>
      (verbose \<and> \<not> loggable (get url (count st)))"
    using attempt_Raise_iff by blast
  with raise(3,4) have False by blast
  then show ?case ..
qed auto

lemma wait_loop_forever:
  assumes "\<forall>k. cond k \<and> retryable (get url k)"
  shows "wait_loop get cond url verbose 0 st = None"
proof (rule ccontr)
  assume "wait_loop get cond url verbose 0 st \<noteq> None"
  then obtain y where "wait_loop get cond url verbose 0 st = Some y" by blast
  then show False
    using assms
    by (induction rule: wait_loop_induct) (auto simp: attempt_retryable)
qed

section \<open>The first answer that is not retried\<close>

lemma first_success_returns:
  assumes "\<forall>j<k. cond j \<and> retryable (get url j)"
    and "timeout = 0 \<or> int k \<le> timeout"
    and "cond k" and "successful (get url k)"
    and "verbose \<longrightarrow> version_written (get url k)"
  shows "\<exists>st. wait_loop get cond url verbose timeout init_state = Some (Inr True, st) \<and>
           count st = k \<and> requested st = replicate (k + 1) url \<and> sleeps st = k \<and>
           err st = [] \<and> (\<not> verbose \<longrightarrow> out st = [])"
proof -
  let ?st = "(retry_step get url verbose ^^ k) init_state"
  have c: "count ?st = k" by (simp add: count_retry_steps init_state_def)
  have "wait_loop get cond url verbose timeout init_state =
        wait_loop get cond url verbose timeout ?st"
    using assms(1,2) by (intro wait_loop_retries) (simp_all add: init_state_def)
  also have "\<dots> = Some (Inr True, request_step get url verbose ?st)"
    using assms(3,4,5)
    by (intro wait_loop_success) (simp_all add: count_retry_steps init_state_def)
  finally have run: "wait_loop get cond url verbose timeout init_state =
      Some (Inr True, request_step get url verbose ?st)" .
  have "count (request_step get url verbose ?st) = k"
    by (simp add: request_step_def c)
  moreover have "requested (request_step get url verbose ?st) = replicate (k + 1) url"
    by (simp add: request_step_def requested_retry_steps init_state_def replicate_append_same)
  moreover have "sleeps (request_step get url verbose ?st) = k"
    by (simp add: request_step_def sleeps_retry_steps init_state_def)
  moreover have "err (request_step get url verbose ?st) = []"
    by (simp add: request_step_def err_retry_steps init_state_def)
  moreover have "\<not> verbose \<longrightarrow> out (request_step get url verbose ?st) = []"
    by (auto simp: request_step_def out_retry_steps_quiet attempt_quiet init_state_def)
  ultimately show ?thesis using run by blast
qed

lemma timeout_after_retries:
  assumes "0 < N" and "\<forall>k\<le>N. cond k \<and> retryable (get url k)"
  shows "\<exists>st. wait_loop get cond url verbose (int N) init_state = Some (Inr False, st) \<and>
           count st = N + 1 \<and> requested st = replicate (N + 1) url \<and> sleeps st = N \<and>
           err st = [failed_to_contact]"
proof -
  let ?st = "(retry_step get url verbose ^^ N) init_state"
  have c: "count ?st = N" by (simp add: count_retry_steps init_state_def)
  have "wait_loop get cond url verbose (int N) init_state =
        wait_loop get cond url verbose (int N) ?st"
    using assms(2) by (intro wait_loop_retries) (simp_all add: init_state_def)
  also have "\<dots> = Some (Inr False, timeout_step get url verbose ?st)"
    using assms by (intro wait_loop_timeout) (simp_all add: c)
  finally have run: "wait_loop get cond url verbose (int N) init_state =
      Some (Inr False, timeout_step get url verbose ?st)" .
  have "count (timeout_step get url verbose ?st) = N + 1"
    by (simp add: timeout_step_def request_step_def c)
  moreover have "requested (timeout_step get url verbose ?st) = replicate (N + 1) url"
    by (simp add: timeout_step_def request_step_def requested_retry_steps init_state_def
        replicate_append_same)
  moreover have "sleeps (timeout_step get url verbose ?st) = N"
    by (simp add: timeout_step_def request_step_def sleeps_retry_steps init_state_def)
  moreover have "err (timeout_step get url verbose ?st) = [failed_to_contact]"
    by (simp add: timeout_step_def request_step_def err_retry_steps init_state_def)
  ultimately show ?thesis using run by blast
qed

section \<open>Runs on targets that differ in the kind of a retried answer\<close>

lemma retry_alike_sym: "retry_alike a b \<Longrightarrow> retry_alike b a"
  by (auto simp: retry_alike_def)

lemma retry_alike_next:
  assumes "retry_alike a b" and "snd (attempt verbose c a) = Next"
  shows "snd (attempt verbose c b) = Next"
  using assms by (auto simp: retry_alike_def attempt_refused_or_403)

lemma retry_alike_same_end:
  assumes "retry_alike a b" and "snd (attempt verbose c a) \<noteq> Next"
  shows "b = a"
proof -
  from assms(2) have "\<not> refused_or_403 a" using attempt_refused_or_403 by blast
  with assms(1) show ?thesis by (auto simp: retry_alike_def)
qed

lemma same_effects_request_step:
  "same_effects s t \<Longrightarrow>
   same_effects (request_step g1 url verbose s) (request_step g2 url verbose t)"
  by (simp add: same_effects_def request_step_def)

lemma same_effects_retry_step:
  "same_effects s t \<Longrightarrow>
   same_effects (retry_step g1 url verbose s) (retry_step g2 url verbose t)"
  by (simp add: same_effects_def retry_step_def request_step_def)

lemma same_effects_timeout_step:
  "same_effects s t \<Longrightarrow>
   same_effects (timeout_step g1 url verbose s) (timeout_step g2 url verbose t)"
  by (simp add: same_effects_def timeout_step_def request_step_def)

lemma same_effects_observe: "same_effects s t \<Longrightarrow> observe (r, t) = observe (r, s)"
  by (simp add: same_effects_def observe_def)

lemma wait_loop_alike:
  assumes "wait_loop g1 cond url verbose timeout s = Some y"
    and "\<forall>k. retry_alike (g1 url k) (g2 url k)"
  shows "\<forall>t. same_effects s t \<longrightarrow>
           (\<exists>z. wait_loop g2 cond url verbose timeout t = Some z \<and> observe z = observe y)"
  using assms
proof (induction rule: wait_loop_induct)
  case (cancelled s)
  show ?case
  proof (intro allI impI)
    fix t assume e: "same_effects s t"
    with cancelled have "\<not> cond (count t)" by (simp add: same_effects_def)
    then have "wait_loop g2 cond url verbose timeout t = Some (Inr True, t)"
      by (rule wait_loop_cancelled)
    with e show "\<exists>z. wait_loop g2 cond url verbose timeout t = Some z \<and>
        observe z = observe (Inr True, s)"
      by (simp add: same_effects_observe)
  qed
next
  case (break s)
  show ?case
  proof (intro allI impI)
    fix t assume e: "same_effects s t"
    then have c: "count t = count s" by (simp add: same_effects_def)
    from break have "g2 url (count s) = g1 url (count s)"
      by (intro retry_alike_same_end [where verbose = verbose and c = "count s"]) simp_all
    with break c have "wait_loop g2 cond url verbose timeout t =
        Some (Inr True, request_step g2 url verbose t)"
      by (intro wait_loop_break) simp_all
    with e show "\<exists>z. wait_loop g2 cond url verbose timeout t = Some z \<and>
        observe z = observe (Inr True, request_step g1 url verbose s)"
      by (simp add: same_effects_observe same_effects_request_step)
  qed
next
  case (raise s x)
  show ?case
  proof (intro allI impI)
    fix t assume e: "same_effects s t"
    then have c: "count t = count s" by (simp add: same_effects_def)
    from raise have "g2 url (count s) = g1 url (count s)"
      by (intro retry_alike_same_end [where verbose = verbose and c = "count s"]) simp_all
    with raise c have "wait_loop g2 cond url verbose timeout t =
        Some (Inl x, request_step g2 url verbose t)"
      by (intro wait_loop_raise) simp_all
    with e show "\<exists>z. wait_loop g2 cond url verbose timeout t = Some z \<and>
        observe z = observe (Inl x, request_step g1 url verbose s)"
      by (simp add: same_effects_observe same_effects_request_step)
  qed
next
  case (timeout s)
  show ?case
  proof (intro allI impI)
    fix t assume e: "same_effects s t"
    then have c: "count t = count s" by (simp add: same_effects_def)
    from timeout have "snd (attempt verbose (count s) (g2 url (count s))) = Next"
      using retry_alike_next by blast
    with timeout c have "wait_loop g2 cond url verbose timeout t =
        Some (Inr False, timeout_step g2 url verbose t)"
      by (intro wait_loop_over) simp_all
    with e show "\<exists>z. wait_loop g2 cond url verbose timeout t = Some z \<and>
        observe z = observe (Inr False, timeout_step g1 url verbose s)"
      by (simp add: same_effects_observe same_effects_timeout_step)
  qed
next
  case (retry s y)
  show ?case
  proof (intro allI impI)
    fix t assume e: "same_effects s t"
    then have c: "count t = count s" by (simp add: same_effects_def)
    from retry have "snd (attempt verbose (count s) (g2 url (count s))) = Next"
      using retry_alike_next by blast
    with retry c have "wait_loop g2 cond url verbose timeout t =
        wait_loop g2 cond url verbose timeout (retry_step g2 url verbose t)"
      by (intro wait_loop_next) simp_all
    moreover from e have "same_effects (retry_step g1 url verbose s) (retry_step g2 url verbose t)"
      by (rule same_effects_retry_step)
    ultimately show "\<exists>z. wait_loop g2 cond url verbose timeout t = Some z \<and>
        observe z = observe y"
      using retry by simp
  qed
qed

lemma wait_loop_alike_observe:
  assumes "\<forall>k. retry_alike (g1 url k) (g2 url k)"
  shows "map_option observe (wait_loop g1 cond url verbose timeout s) =
         map_option observe (wait_loop g2 cond url verbose timeout s)"
proof (cases "wait_loop g1 cond url verbose timeout s")
  case (Some y)
  from wait_loop_alike [of g1 cond url verbose timeout s y g2] Some assms have
    "\<exists>z. wait_loop g2 cond url verbose timeout s = Some z \<and> observe z = observe y"
    by (simp add: same_effects_def)
  with Some show ?thesis by auto
next
  case None
  show ?thesis
  proof (cases "wait_loop g2 cond url verbose timeout s")
    case n2: None
    with None show ?thesis by simp
  next
    case (Some z)
    from assms have "\<forall>k. retry_alike (g2 url k) (g1 url k)"
      by (simp add: retry_alike_sym)
    with wait_loop_alike [of g2 cond url verbose timeout s z g1] Some have
      "\<exists>y. wait_loop g1 cond url verbose timeout s = Some y \<and> observe y = observe z"
      by (simp add: same_effects_def)
    with None show ?thesis by simp
  qed
qed

section \<open>The properties\<close>

text \<open>
  C1, as the claim states it, fails on a target that never yields a successful answer,
  with \<^verbatim>\<open>timeout = 2\<close>: when the owner of the sleep condition cancels it before the
  second test of the loop, the call returns \<^verbatim>\<open>True\<close> after one request; and when the
  request ends in an exception that is not a \<^verbatim>\<open>ConnectionError\<close>, the call raises it at
  the first request. Neither returns \<^verbatim>\<open>False\<close> after three requests.
\<close>

theorem never_successful_counterexample:
  "galaxy_wait always_forbidden localhost False 2 (Some (cancel_at 1)) None =
     Some (Inr True,
       \<lparr>count = 1, requested = [''http://localhost:8080/api/version''],
        out = [], err = [], sleeps = 1\<rparr>) \<and>
   galaxy_wait broken_transfer localhost False 2 None None =
     Some (Inl (RequestException ''ChunkedEncodingError''),
       \<lparr>count = 0, requested = [''http://localhost:8080/api/version''],
        out = [], err = [], sleeps = 0\<rparr>)"
  by code_simp

text \<open>
  C1, amended. With \<^verbatim>\<open>timeout = N > 0\<close>, when each of the first \<open>N + 1\<close> requests
  ends in a connection failure, a 403 or a body that is not JSON, and the sleep condition
  is set at the tests 0 to \<open>N\<close> of the loop, the call returns \<^verbatim>\<open>False\<close> after exactly
  \<open>N + 1\<close> requests: the first \<open>N\<close> iterations sleep and go on, and in iteration
  \<open>N + 1\<close> the test \<^verbatim>\<open>count > timeout\<close> holds for the first time, the notice goes to
  standard error and the call returns without another sleep.
\<close>

theorem timeout_returns_false_after_N_plus_1_attempts:
  assumes "0 < N"
    and "\<forall>k\<le>N. condition_of sleep_condition k \<and>
                retryable (get (version_url galaxy_url api_key) k)"
  shows "\<exists>st. galaxy_wait get galaxy_url verbose (int N) sleep_condition api_key =
                Some (Inr False, st) \<and>
              count st = N + 1 \<and>
              requested st = replicate (N + 1) (version_url galaxy_url api_key) \<and>
              sleeps st = N \<and>
              err st = [failed_to_contact]"
  unfolding galaxy_wait_def using assms by (rule timeout_after_retries)

theorem timeout_returns_false_after_N_plus_1_attempts_witness:
  "(0::nat) < 2 \<and>
   list_all (\<lambda>k. condition_of None k \<and>
                retryable (always_forbidden (version_url localhost None) k)) [0, 1, 2] \<and>
   (\<exists>st. galaxy_wait always_forbidden localhost False (int 2) None None =
           Some (Inr False, st) \<and>
         count st = 2 + 1 \<and>
         requested st = replicate (2 + 1) (version_url localhost None) \<and>
         sleeps st = 2 \<and>
         err st = [failed_to_contact])"
proof -
  have h: "\<forall>k\<le>2. condition_of None k \<and>
                  retryable (always_forbidden (version_url localhost None) k)"
    by (simp add: condition_of_def fresh_def always_forbidden_def key_not_valid_def)
  from h timeout_returns_false_after_N_plus_1_attempts
    [where N = 2 and sleep_condition = None and get = always_forbidden
       and galaxy_url = localhost and api_key = None and verbose = False]
  show ?thesis
    by (simp add: condition_of_def fresh_def always_forbidden_def key_not_valid_def)
qed

text \<open>
  C2, as the claim states it, fails: an exception of \<^verbatim>\<open>requests\<close> that is not a
  \<^verbatim>\<open>ConnectionError\<close> (here \<^verbatim>\<open>ChunkedEncodingError\<close>, a transfer that breaks in the
  middle of the body) is caught by no handler of the loop and leaves \<^verbatim>\<open>galaxy_wait\<close>
  at the first request, and so does an exception of \<^verbatim>\<open>result.json()\<close> that is not a
  \<^verbatim>\<open>ValueError\<close> (here \<^verbatim>\<open>RecursionError\<close>, on a body nested too deep).
\<close>

theorem broken_transfer_escapes:
  "galaxy_wait broken_transfer localhost False 0 None None =
     Some (Inl (RequestException ''ChunkedEncodingError''),
       \<lparr>count = 0, requested = [''http://localhost:8080/api/version''],
        out = [], err = [], sleeps = 0\<rparr>) \<and>
   galaxy_wait always_too_deep localhost False 0 None None =
     Some (Inl (JsonException ''RecursionError''),
       \<lparr>count = 0, requested = [''http://localhost:8080/api/version''],
        out = [], err = [], sleeps = 0\<rparr>)"
  by code_simp

text \<open>
  C2, amended. When every \<^verbatim>\<open>requests.get\<close> either raises \<^verbatim>\<open>ConnectionError\<close> or
  returns a response, \<^verbatim>\<open>result.json()\<close> on every response other than a 403 either
  returns or raises \<^verbatim>\<open>ValueError\<close>, and, if \<^verbatim>\<open>verbose\<close> is set, every parsed body of
  a response other than a 403 is a dict with the key \<^verbatim>\<open>version_major\<close>, no exception
  leaves \<^verbatim>\<open>galaxy_wait\<close>: the call polls for ever or returns a boolean.
\<close>

theorem no_exception_from_handled_answers:
  assumes "\<forall>k. handled (get (version_url galaxy_url api_key) k)"
    and "verbose \<longrightarrow> (\<forall>k. loggable (get (version_url galaxy_url api_key) k))"
  shows "galaxy_wait get galaxy_url verbose timeout sleep_condition api_key = None \<or>
         (\<exists>b st. galaxy_wait get galaxy_url verbose timeout sleep_condition api_key =
                  Some (Inr b, st))"
proof (cases "galaxy_wait get galaxy_url verbose timeout sleep_condition api_key")
  case None
  then show ?thesis by simp
next
  case (Some y)
  from wait_loop_no_exception [OF Some [unfolded galaxy_wait_def] assms]
  obtain b where "fst y = Inr b" by blast
  with Some show ?thesis by (cases y) auto
qed

theorem no_exception_from_handled_answers_witness:
  "(\<forall>k. handled (forbidden_then_up 2 (version_url localhost None) k)) \<and>
   (\<forall>k. loggable (forbidden_then_up 2 (version_url localhost None) k)) \<and>
   galaxy_wait (forbidden_then_up 2) localhost True 0 None None =
     Some (Inr True,
       \<lparr>count = 2, requested = replicate 3 ''http://localhost:8080/api/version'',
        out = [KeyNotValid 0 key_not_valid, KeyNotValid 1 key_not_valid,
               GalaxyVersion (JString ''23.0'')],
        err = [], sleeps = 2\<rparr>)"
proof -
  have h: "\<forall>k. handled (forbidden_then_up 2 (version_url localhost None) k)"
    by (simp add: forbidden_then_up_def key_not_valid_def galaxy_up_def)
  have l: "\<forall>k. loggable (forbidden_then_up 2 (version_url localhost None) k)"
    by (simp add: forbidden_then_up_def key_not_valid_def galaxy_up_def has_version_major_def)
  have run: "galaxy_wait (forbidden_then_up 2) localhost True 0 None None =
     Some (Inr True,
       \<lparr>count = 2, requested = replicate 3 ''http://localhost:8080/api/version'',
        out = [KeyNotValid 0 key_not_valid, KeyNotValid 1 key_not_valid,
               GalaxyVersion (JString ''23.0'')],
        err = [], sleeps = 2\<rparr>)"
    by code_simp
  from h l run
    no_exception_from_handled_answers
      [where get = "forbidden_then_up 2" and galaxy_url = localhost and api_key = None
         and verbose = True and timeout = 0 and sleep_condition = None]
  show ?thesis by simp
qed

text \<open>
  C3, at the failing input. With \<^verbatim>\<open>verbose\<close> set, an answer 200 whose body is the JSON
  \<^verbatim>\<open>{"status": "ok"}\<close> does not make the call return \<^verbatim>\<open>True\<close>: the write of line 75
  subscripts the parsed body before the \<^verbatim>\<open>break\<close>, and its \<^verbatim>\<open>KeyError\<close> leaves the
  call. The same answer with \<^verbatim>\<open>verbose\<close> unset returns \<^verbatim>\<open>True\<close> (C10).
\<close>

theorem verbose_key_error_on_other_json:
  "galaxy_wait always_other_json localhost True 0 None None =
     Some (Inl (KeyError ''version_major''),
       \<lparr>count = 0, requested = [''http://localhost:8080/api/version''],
        out = [], err = [], sleeps = 0\<rparr>)"
  by code_simp

text \<open>
  C4, as the claim states it, fails: with \<^verbatim>\<open>timeout = 0\<close> a call can end without a
  successful answer and without a cancellation. Here the first request is refused and the
  second ends in \<^verbatim>\<open>ChunkedEncodingError\<close>, which leaves the call with the sleep
  condition still set.
\<close>

theorem no_timeout_ends_by_exception_counterexample:
  "galaxy_wait (refused_then_broken 1) localhost False 0 None None =
     Some (Inl (RequestException ''ChunkedEncodingError''),
       \<lparr>count = 1, requested = replicate 2 ''http://localhost:8080/api/version'',
        out = [], err = [], sleeps = 1\<rparr>) \<and>
   condition_of None 1 \<and>
   \<not> successful (refused_then_broken 1 (version_url localhost None) 1)"
proof -
  have "galaxy_wait (refused_then_broken 1) localhost False 0 None None =
     Some (Inl (RequestException ''ChunkedEncodingError''),
       \<lparr>count = 1, requested = replicate 2 ''http://localhost:8080/api/version'',
        out = [], err = [], sleeps = 1\<rparr>)"
    by code_simp
  then show ?thesis
    by (simp add: condition_of_def fresh_def refused_then_broken_def)
qed

text \<open>
  C4, amended. With \<^verbatim>\<open>timeout = 0\<close> a call that ends never returns \<^verbatim>\<open>False\<close> and
  never writes the notice of the timeout branch to standard error, whatever the answers
  and the sleep condition are. It ends in one of three ways: it returns \<^verbatim>\<open>True\<close>
  because the sleep condition was found cancelled at the last test of the loop; it
  returns \<^verbatim>\<open>True\<close> because the last request got a successful answer (not a 403, a
  body that is JSON); or its last iteration, entered with the sleep condition set, raises
  an exception that no handler catches. And when every answer is a connection failure, a
  403 or a body that is not JSON and the sleep condition stays set for ever, the call
  does not end.
\<close>

theorem no_timeout_never_returns_false:
  "(\<forall>r st. galaxy_wait get galaxy_url verbose 0 sleep_condition api_key = Some (r, st) \<longrightarrow>
           r \<noteq> Inr False \<and> err st = [] \<and>
           (r = Inr True \<longrightarrow>
              \<not> condition_of sleep_condition (count st) \<or>
              successful (get (version_url galaxy_url api_key) (count st))) \<and>
           (\<forall>e. r = Inl e \<longrightarrow>
              condition_of sleep_condition (count st) \<and>
              snd (attempt verbose (count st)
                    (get (version_url galaxy_url api_key) (count st))) = Raise e)) \<and>
   ((\<forall>k. condition_of sleep_condition k \<and>
         retryable (get (version_url galaxy_url api_key) k)) \<longrightarrow>
    galaxy_wait get galaxy_url verbose 0 sleep_condition api_key = None)"
proof (rule conjI)
  show "\<forall>r st. galaxy_wait get galaxy_url verbose 0 sleep_condition api_key = Some (r, st) \<longrightarrow>
           r \<noteq> Inr False \<and> err st = [] \<and>
           (r = Inr True \<longrightarrow>
              \<not> condition_of sleep_condition (count st) \<or>
              successful (get (version_url galaxy_url api_key) (count st))) \<and>
           (\<forall>e. r = Inl e \<longrightarrow>
              condition_of sleep_condition (count st) \<and>
              snd (attempt verbose (count st)
                    (get (version_url galaxy_url api_key) (count st))) = Raise e)"
  proof (intro allI impI)
    fix r st
    assume "galaxy_wait get galaxy_url verbose 0 sleep_condition api_key = Some (r, st)"
    from wait_loop_no_timeout [OF this [unfolded galaxy_wait_def]]
    show "r \<noteq> Inr False \<and> err st = [] \<and>
          (r = Inr True \<longrightarrow>
             \<not> condition_of sleep_condition (count st) \<or>
             successful (get (version_url galaxy_url api_key) (count st))) \<and>
          (\<forall>e. r = Inl e \<longrightarrow>
             condition_of sleep_condition (count st) \<and>
             snd (attempt verbose (count st)
                   (get (version_url galaxy_url api_key) (count st))) = Raise e)"
      by (simp add: init_state_def)
  qed
  show "(\<forall>k. condition_of sleep_condition k \<and>
            retryable (get (version_url galaxy_url api_key) k)) \<longrightarrow>
        galaxy_wait get galaxy_url verbose 0 sleep_condition api_key = None"
    unfolding galaxy_wait_def by (simp add: wait_loop_forever)
qed

theorem no_timeout_never_returns_false_witness:
  "galaxy_wait (refused_then_up 3) localhost True 0 None None =
     Some (Inr True,
       \<lparr>count = 3, requested = replicate 4 ''http://localhost:8080/api/version'',
        out = [NotUpYet 0 ''Connection refused'', NotUpYet 1 ''Connection refused'',
               NotUpYet 2 ''Connection refused'', GalaxyVersion (JString ''23.0'')],
        err = [], sleeps = 3\<rparr>) \<and>
   successful (refused_then_up 3 (version_url localhost None) 3) \<and>
   galaxy_wait (refused_then_broken 2) localhost True 0 None None =
     Some (Inl (RequestException ''ChunkedEncodingError''),
       \<lparr>count = 2, requested = replicate 3 ''http://localhost:8080/api/version'',
        out = [NotUpYet 0 ''Connection refused'', NotUpYet 1 ''Connection refused''],
        err = [], sleeps = 2\<rparr>) \<and>
   snd (attempt True 2 (refused_then_broken 2 (version_url localhost None) 2)) =
     Raise (RequestException ''ChunkedEncodingError'') \<and>
   (\<forall>k. condition_of None k \<and> retryable (always_forbidden (version_url localhost None) k)) \<and>
   galaxy_wait always_forbidden localhost True 0 None None = None"
proof -
  have run: "galaxy_wait (refused_then_up 3) localhost True 0 None None =
     Some (Inr True,
       \<lparr>count = 3, requested = replicate 4 ''http://localhost:8080/api/version'',
        out = [NotUpYet 0 ''Connection refused'', NotUpYet 1 ''Connection refused'',
               NotUpYet 2 ''Connection refused'', GalaxyVersion (JString ''23.0'')],
        err = [], sleeps = 3\<rparr>)"
    by code_simp
  have exc: "galaxy_wait (refused_then_broken 2) localhost True 0 None None =
     Some (Inl (RequestException ''ChunkedEncodingError''),
       \<lparr>count = 2, requested = replicate 3 ''http://localhost:8080/api/version'',
        out = [NotUpYet 0 ''Connection refused'', NotUpYet 1 ''Connection refused''],
        err = [], sleeps = 2\<rparr>)"
    by code_simp
  have h: "\<forall>k. condition_of None k \<and>
               retryable (always_forbidden (version_url localhost None) k)"
    by (simp add: condition_of_def fresh_def always_forbidden_def key_not_valid_def)
  from run exc h
    no_timeout_never_returns_false [of "refused_then_up 3" localhost True None None]
    no_timeout_never_returns_false [of "refused_then_broken 2" localhost True None None]
    no_timeout_never_returns_false [of always_forbidden localhost True None None]
  show ?thesis by (simp add: condition_of_def fresh_def)
qed

text \<open>
  C5. Two targets whose answers are, request by request, the same or both among
  connection failure and 403, give calls that cannot be told apart except on standard
  output: both poll for ever, or both end with the same result, the same counter, the
  same requests, the same number of sleeps and the same standard error. A 403 is retried
  whatever its body, JSON or not.
\<close>

theorem forbidden_retried_like_connection_failure:
  assumes "\<forall>k. retry_alike (g1 (version_url galaxy_url api_key) k)
                            (g2 (version_url galaxy_url api_key) k)"
  shows "map_option observe (galaxy_wait g1 galaxy_url verbose timeout sleep_condition api_key) =
         map_option observe (galaxy_wait g2 galaxy_url verbose timeout sleep_condition api_key) \<and>
         (\<forall>c j. snd (attempt verbose c (Response \<lparr>status_code = 403, json_body = Parsed j\<rparr>)) =
                Next)"
proof
  show "map_option observe (galaxy_wait g1 galaxy_url verbose timeout sleep_condition api_key) =
        map_option observe (galaxy_wait g2 galaxy_url verbose timeout sleep_condition api_key)"
    unfolding galaxy_wait_def using assms by (rule wait_loop_alike_observe)
  show "\<forall>c j. snd (attempt verbose c (Response \<lparr>status_code = 403, json_body = Parsed j\<rparr>)) =
               Next"
    by simp
qed

theorem forbidden_retried_like_connection_failure_witness:
  "(\<forall>k. retry_alike (refused_then_up 3 (version_url localhost None) k)
                     (forbidden_then_up 3 (version_url localhost None) k)) \<and>
   map_option observe (galaxy_wait (refused_then_up 3) localhost True 0 None None) =
     Some (Inr True, 3, replicate 4 ''http://localhost:8080/api/version'', 3, []) \<and>
   map_option observe (galaxy_wait (forbidden_then_up 3) localhost True 0 None None) =
     Some (Inr True, 3, replicate 4 ''http://localhost:8080/api/version'', 3, [])"
proof -
  have h: "\<forall>k. retry_alike (refused_then_up 3 (version_url localhost None) k)
                     (forbidden_then_up 3 (version_url localhost None) k)"
    by (simp add: retry_alike_def refused_then_up_def forbidden_then_up_def key_not_valid_def)
  have "map_option observe (galaxy_wait (refused_then_up 3) localhost True 0 None None) =
     Some (Inr True, 3, replicate 4 ''http://localhost:8080/api/version'', 3, [])"
    by code_simp
  with h forbidden_retried_like_connection_failure
    [where ?g1.0 = "refused_then_up 3" and ?g2.0 = "forbidden_then_up 3"
       and galaxy_url = localhost and api_key = None and verbose = True and timeout = 0
       and sleep_condition = None]
  show ?thesis by simp
qed

text \<open>
  C6, as the claim states it, fails: with \<^verbatim>\<open>timeout = 1\<close>, two connection failures
  followed by a valid JSON answer end in \<^verbatim>\<open>False\<close> at the second failure; the third
  request is never made.
\<close>

theorem failures_then_json_counterexample:
  "galaxy_wait (refused_then_up 2) localhost False 1 None None =
     Some (Inr False,
       \<lparr>count = 2, requested = replicate 2 ''http://localhost:8080/api/version'',
        out = [], err = [failed_to_contact], sleeps = 1\<rparr>)"
  by code_simp

text \<open>
  C6, amended. Let the first \<open>k\<close> requests end in connection failures, with the sleep
  condition set at the tests 0 to \<open>k - 1\<close> of the loop. If \<^verbatim>\<open>timeout = 0\<close> or
  \<open>k \<le> timeout\<close>, the sleep condition is set at test \<open>k\<close>, the next request gets a
  successful answer and, when \<^verbatim>\<open>verbose\<close> is set, its body is a dict with a
  \<^verbatim>\<open>version_major\<close> that standard output can encode, then the call returns \<^verbatim>\<open>True\<close>
  with \<open>count = k\<close>, having made \<open>k + 1\<close> requests and slept \<open>k\<close> times. If
  \<open>0 < timeout < k\<close>, the call returns \<^verbatim>\<open>False\<close> with \<open>count = timeout + 1\<close>, having
  made \<open>timeout + 1\<close> requests and slept \<open>timeout\<close> times: it never makes the request
  that would have got the successful answer.
\<close>

theorem failures_then_json_returns_true:
  assumes "\<forall>j<k. condition_of sleep_condition j \<and>
                connection_failure (get (version_url galaxy_url api_key) j)"
  shows "((timeout = 0 \<or> int k \<le> timeout) \<and>
          condition_of sleep_condition k \<and>
          successful (get (version_url galaxy_url api_key) k) \<and>
          (verbose \<longrightarrow> version_written (get (version_url galaxy_url api_key) k)) \<longrightarrow>
          (\<exists>st. galaxy_wait get galaxy_url verbose timeout sleep_condition api_key =
                  Some (Inr True, st) \<and>
                count st = k \<and>
                requested st = replicate (k + 1) (version_url galaxy_url api_key) \<and>
                sleeps st = k)) \<and>
         (0 < timeout \<and> timeout < int k \<longrightarrow>
          (\<exists>st. galaxy_wait get galaxy_url verbose timeout sleep_condition api_key =
                  Some (Inr False, st) \<and>
                count st = nat timeout + 1 \<and>
                requested st = replicate (nat timeout + 1) (version_url galaxy_url api_key) \<and>
                sleeps st = nat timeout \<and>
                err st = [failed_to_contact]))"
proof (intro conjI impI)
  let ?url = "version_url galaxy_url api_key"
  let ?cond = "condition_of sleep_condition"
  have r: "\<forall>j<k. ?cond j \<and> retryable (get ?url j)"
    using assms by (simp add: connection_failure_retryable)
  {
    assume h: "(timeout = 0 \<or> int k \<le> timeout) \<and> ?cond k \<and> successful (get ?url k) \<and>
               (verbose \<longrightarrow> version_written (get ?url k))"
    with r have "\<exists>st. wait_loop get ?cond ?url verbose timeout init_state =
              Some (Inr True, st) \<and>
            count st = k \<and> requested st = replicate (k + 1) ?url \<and>
            sleeps st = k \<and> err st = [] \<and> (\<not> verbose \<longrightarrow> out st = [])"
      by (intro first_success_returns) simp_all
    then show "\<exists>st. galaxy_wait get galaxy_url verbose timeout sleep_condition api_key =
                  Some (Inr True, st) \<and>
                count st = k \<and> requested st = replicate (k + 1) ?url \<and> sleeps st = k"
      by (auto simp: galaxy_wait_def)
  }
  {
    assume h: "0 < timeout \<and> timeout < int k"
    then have n: "0 < nat timeout" and t: "int (nat timeout) = timeout" by simp_all
    have "\<forall>j\<le>nat timeout. ?cond j \<and> retryable (get ?url j)"
    proof (intro allI impI)
      fix j assume "j \<le> nat timeout"
      with h have "j < k" by linarith
      with r show "?cond j \<and> retryable (get ?url j)" by blast
    qed
    with n have "\<exists>st. wait_loop get ?cond ?url verbose (int (nat timeout)) init_state =
              Some (Inr False, st) \<and>
            count st = nat timeout + 1 \<and> requested st = replicate (nat timeout + 1) ?url \<and>
            sleeps st = nat timeout \<and> err st = [failed_to_contact]"
      by (rule timeout_after_retries)
    then show "\<exists>st. galaxy_wait get galaxy_url verbose timeout sleep_condition api_key =
                  Some (Inr False, st) \<and>
                count st = nat timeout + 1 \<and>
                requested st = replicate (nat timeout + 1) ?url \<and>
                sleeps st = nat timeout \<and>
                err st = [failed_to_contact]"
      unfolding galaxy_wait_def t .
  }
qed

theorem failures_then_json_returns_true_witness:
  "list_all (\<lambda>j. condition_of None j \<and>
                connection_failure (refused_then_up 3 (version_url localhost None) j))
     [0, 1, 2] \<and>
   condition_of None 3 \<and>
   successful (refused_then_up 3 (version_url localhost None) 3) \<and>
   version_written (refused_then_up 3 (version_url localhost None) 3) \<and>
   (\<exists>st. galaxy_wait (refused_then_up 3) localhost True 3 None None = Some (Inr True, st) \<and>
         count st = 3 \<and>
         requested st = replicate (3 + 1) (version_url localhost None) \<and>
         sleeps st = 3) \<and>
   (\<exists>st. galaxy_wait (refused_then_up 3) localhost True 2 None None = Some (Inr False, st) \<and>
         count st = 2 + 1 \<and>
         requested st = replicate (2 + 1) (version_url localhost None) \<and>
         sleeps st = 2 \<and>
         err st = [failed_to_contact])"
proof -
  have h: "\<forall>j<3. condition_of None j \<and>
                 connection_failure (refused_then_up 3 (version_url localhost None) j)"
    by (simp add: condition_of_def fresh_def refused_then_up_def)
  have s: "successful (refused_then_up 3 (version_url localhost None) 3)"
    and l: "version_written (refused_then_up 3 (version_url localhost None) 3)"
    by (simp_all add: refused_then_up_def galaxy_up_def)
  from h s l
    failures_then_json_returns_true
      [where k = 3 and get = "refused_then_up 3" and galaxy_url = localhost
         and api_key = None and verbose = True and timeout = 3 and sleep_condition = None]
    failures_then_json_returns_true
      [where k = 3 and get = "refused_then_up 3" and galaxy_url = localhost
         and api_key = None and verbose = True and timeout = 2 and sleep_condition = None]
  show ?thesis
    by (simp add: condition_of_def fresh_def refused_then_up_def)
qed

text \<open>
  C7. A non-empty \<^verbatim>\<open>api_key\<close> is appended as it is: the URL is \<^verbatim>\<open>galaxy_url\<close>, then
  \<^verbatim>\<open>/api/version?\<close>, then the key, and every request of the call goes to that URL.
\<close>

theorem api_key_appended_literally:
  assumes "key \<noteq> []"
  shows "version_url galaxy_url (Some key) = galaxy_url @ ''/api/version?'' @ key \<and>
         (\<forall>r st. galaxy_wait get galaxy_url verbose timeout sleep_condition (Some key) =
                   Some (r, st) \<longrightarrow>
                 (\<exists>n. requested st = replicate n (galaxy_url @ ''/api/version?'' @ key)))"
proof -
  have u: "version_url galaxy_url (Some key) = galaxy_url @ ''/api/version?'' @ key"
    using assms by (simp add: version_url_def)
  show ?thesis using galaxy_wait_requested [of get galaxy_url verbose timeout sleep_condition "Some key"]
    unfolding u by blast
qed

theorem api_key_appended_literally_witness:
  "''key=abc'' \<noteq> [] \<and>
   version_url localhost (Some ''key=abc'') = ''http://localhost:8080/api/version?key=abc'' \<and>
   galaxy_wait (refused_then_up 0) localhost False 0 None (Some ''key=abc'') =
     Some (Inr True, \<lparr>count = 0, requested = [''http://localhost:8080/api/version?key=abc''],
                      out = [], err = [], sleeps = 0\<rparr>)"
proof -
  have "''key=abc'' \<noteq> []" by simp
  from api_key_appended_literally [OF this, of localhost]
  have "version_url localhost (Some ''key=abc'') = localhost @ ''/api/version?'' @ ''key=abc''"
    by blast
  moreover have "galaxy_wait (refused_then_up 0) localhost False 0 None (Some ''key=abc'') =
     Some (Inr True, \<lparr>count = 0, requested = [''http://localhost:8080/api/version?key=abc''],
                      out = [], err = [], sleeps = 0\<rparr>)"
    by code_simp
  ultimately show ?thesis by (simp add: localhost_def)
qed

text \<open>
  C8. \<^verbatim>\<open>main\<close> exits with 0 exactly when \<^verbatim>\<open>galaxy_wait\<close> returned \<^verbatim>\<open>True\<close> and
  with 1 exactly when it returned \<^verbatim>\<open>False\<close>; it passes no other code to
  \<^verbatim>\<open>sys.exit\<close>.
\<close>

theorem main_exit_code:
  "(main get opts = Some (Inr 0) \<longleftrightarrow>
      (\<exists>st. galaxy_wait get (galaxy opts) (verbose_opt opts) (timeout_opt opts) None
              (api_key_opt opts) = Some (Inr True, st))) \<and>
   (main get opts = Some (Inr 1) \<longleftrightarrow>
      (\<exists>st. galaxy_wait get (galaxy opts) (verbose_opt opts) (timeout_opt opts) None
              (api_key_opt opts) = Some (Inr False, st))) \<and>
   (\<forall>c. main get opts = Some (Inr c) \<longrightarrow> c = 0 \<or> c = 1)"
  by (auto simp: main_def split: option.splits sum.splits prod.splits)

theorem main_exit_code_witness:
  "main (refused_then_up 3)
     \<lparr>galaxy = localhost, verbose_opt = False, timeout_opt = 0, api_key_opt = None\<rparr> =
     Some (Inr 0) \<and>
   main always_forbidden
     \<lparr>galaxy = localhost, verbose_opt = False, timeout_opt = 2, api_key_opt = None\<rparr> =
     Some (Inr 1)"
proof -
  have "galaxy_wait (refused_then_up 3) localhost False 0 None None =
      Some (Inr True,
        \<lparr>count = 3, requested = replicate 4 ''http://localhost:8080/api/version'',
         out = [], err = [], sleeps = 3\<rparr>)"
    by code_simp
  moreover
  have "galaxy_wait always_forbidden localhost False 2 None None =
      Some (Inr False,
        \<lparr>count = 3, requested = replicate 3 ''http://localhost:8080/api/version'',
         out = [], err = [failed_to_contact], sleeps = 2\<rparr>)"
    by code_simp
  ultimately show ?thesis
    using main_exit_code [of "refused_then_up 3"
        "\<lparr>galaxy = localhost, verbose_opt = False, timeout_opt = 0, api_key_opt = None\<rparr>"]
      main_exit_code [of always_forbidden
        "\<lparr>galaxy = localhost, verbose_opt = False, timeout_opt = 2, api_key_opt = None\<rparr>"]
    by simp
qed



text \<open>
  C10. With \<^verbatim>\<open>verbose\<close> unset a call that ends has written nothing to standard
  output, and neither has a call that is still polling after any number of retried
  iterations; the iteration that gets a JSON body with a status other than 403 ends in
  \<^verbatim>\<open>break\<close> without subscripting the body, whatever its shape; and the call returns
  \<^verbatim>\<open>True\<close> at the first successful answer that it reaches.
\<close>

theorem quiet_and_safe_when_not_verbose:
  "(\<forall>r st. galaxy_wait get galaxy_url False timeout sleep_condition api_key = Some (r, st) \<longrightarrow>
           out st = []) \<and>
   (\<forall>n. out ((retry_step get (version_url galaxy_url api_key) False ^^ n) init_state) = []) \<and>
   (\<forall>c (res::response) j. status_code res \<noteq> 403 \<and> json_body res = Parsed j \<longrightarrow>
           attempt False c (Response res) = ([], Break)) \<and>
   (\<forall>k. (\<forall>i<k. condition_of sleep_condition i \<and>
               retryable (get (version_url galaxy_url api_key) i)) \<and>
        (timeout = 0 \<or> int k \<le> timeout) \<and>
        condition_of sleep_condition k \<and>
        successful (get (version_url galaxy_url api_key) k) \<longrightarrow>
        (\<exists>st. galaxy_wait get galaxy_url False timeout sleep_condition api_key =
                Some (Inr True, st) \<and>
              count st = k \<and> out st = []))"
proof (intro conjI allI impI)
  fix r st
  assume "galaxy_wait get galaxy_url False timeout sleep_condition api_key = Some (r, st)"
  from wait_loop_quiet [OF this [unfolded galaxy_wait_def]]
  show "out st = []" by (simp add: init_state_def)
next
  fix n
  show "out ((retry_step get (version_url galaxy_url api_key) False ^^ n) init_state) = []"
    by (simp add: out_retry_steps_quiet init_state_def)
next
  fix c and res :: response and j
  assume "status_code res \<noteq> 403 \<and> json_body res = Parsed j"
  then show "attempt False c (Response res) = ([], Break)" by simp
next
  fix k
  assume h: "(\<forall>i<k. condition_of sleep_condition i \<and>
               retryable (get (version_url galaxy_url api_key) i)) \<and>
        (timeout = 0 \<or> int k \<le> timeout) \<and>
        condition_of sleep_condition k \<and>
        successful (get (version_url galaxy_url api_key) k)"
  have "\<exists>st. wait_loop get (condition_of sleep_condition) (version_url galaxy_url api_key)
            False timeout init_state = Some (Inr True, st) \<and>
          count st = k \<and> requested st = replicate (k + 1) (version_url galaxy_url api_key) \<and>
          sleeps st = k \<and> err st = [] \<and> (\<not> False \<longrightarrow> out st = [])"
    using h by (intro first_success_returns) simp_all
  then show "\<exists>st. galaxy_wait get galaxy_url False timeout sleep_condition api_key =
                Some (Inr True, st) \<and> count st = k \<and> out st = []"
    by (auto simp: galaxy_wait_def)
qed

theorem quiet_and_safe_when_not_verbose_witness:
  "galaxy_wait always_other_json localhost False 0 None None =
     Some (Inr True,
       \<lparr>count = 0, requested = [''http://localhost:8080/api/version''],
        out = [], err = [], sleeps = 0\<rparr>) \<and>
   attempt False 0 (Response \<lparr>status_code = 200, json_body = Parsed (JArray [])\<rparr>) = ([], Break)"
proof -
  have "successful (always_other_json (version_url localhost None) 0)"
    by (simp add: always_other_json_def other_json_def)
  with quiet_and_safe_when_not_verbose
    [of always_other_json localhost 0 None None]
  obtain st where
    "galaxy_wait always_other_json localhost False 0 None None = Some (Inr True, st)"
    by (auto simp: condition_of_def fresh_def)
  moreover have "galaxy_wait always_other_json localhost False 0 None None =
     Some (Inr True,
       \<lparr>count = 0, requested = [''http://localhost:8080/api/version''],
        out = [], err = [], sleeps = 0\<rparr>)"
    by code_simp
  moreover have
    "attempt False 0 (Response \<lparr>status_code = 200, json_body = Parsed (JArray [])\<rparr>) = ([], Break)"
    using quiet_and_safe_when_not_verbose [of always_other_json localhost 0 None None]
    by simp
  ultimately show ?thesis by simp
qed

text \<open>
  The model on an answer whose \<^verbatim>\<open>version_major\<close> standard output cannot encode, with
  \<^verbatim>\<open>verbose\<close> set: the \<^verbatim>\<open>ValueError\<close> of the write is caught at line 78, line 80
  writes the parsed body and the iteration is retried.
\<close>

lemma unencodable_version_is_retried:
  "galaxy_wait always_surrogate_version localhost True 1 None None =
     Some (Inr False,
       \<lparr>count = 2, requested = replicate 2 ''http://localhost:8080/api/version'',
        out = [NoValidJson 0 (AfterParse (JObject [(''version_major'', JSurrogateString ''d800'')])),
               NoValidJson 1 (AfterParse (JObject [(''version_major'', JSurrogateString ''d800'')]))],
        err = [failed_to_contact], sleeps = 1\<rparr>)"
  by code_simp

end
